theory Spec2Isabelle
  imports Main "HOL-Library.Word"
begin

unbundle bit_operations_syntax

section \<open>JavaScript values\<close>

text \<open>
  The worker is JavaScript: its data are the values that \<^verbatim>\<open>request.json()\<close> and
  \<^verbatim>\<open>JSON.parse\<close> hand to it, read by property access, and its strings are sequences of
  UTF-16 code units. A number is identified by its canonical decimal text, the result of
  the language's Number-to-String conversion (\<^verbatim>\<open>0\<close> and \<^verbatim>\<open>-0\<close> share the text
  \<^verbatim>\<open>0\<close>), so that equality of the model is \<^verbatim>\<open>===\<close> on numbers and no floating-point
  arithmetic is needed: the program never computes with a number, it only tests, compares
  and copies them.
\<close>

type_synonym byte = "8 word"
type_synonym code_unit = "16 word"
type_synonym jsstring = "code_unit list"

definition js :: "string \<Rightarrow> jsstring" where
  "js s = map of_char s"

datatype jsval =
    JUndefined
  | JNull
  | JBool bool
  | JNum jsstring
  | JStr jsstring
  | JArr "jsval list"
  | JObj "(jsstring \<times> jsval) list"

datatype error = TypeError | SyntaxError

text \<open>\<^verbatim>\<open>if (v)\<close>, \<^verbatim>\<open>v || w\<close>, \<^verbatim>\<open>!!v\<close>: the language's ToBoolean.\<close>

fun ToBoolean :: "jsval \<Rightarrow> bool" where
  "ToBoolean JUndefined = False"
| "ToBoolean JNull = False"
| "ToBoolean (JBool b) = b"
| "ToBoolean (JNum n) = (n \<noteq> js ''0'' \<and> n \<noteq> js ''NaN'')"
| "ToBoolean (JStr s) = (s \<noteq> [])"
| "ToBoolean (JArr xs) = True"
| "ToBoolean (JObj kvs) = True"

text \<open>The decimal text of a length or an index, and the index a property key denotes.\<close>

fun decimal :: "nat \<Rightarrow> jsstring" where
  "decimal n = (if n < 10 then [of_nat (48 + n)]
                else decimal (n div 10) @ [of_nat (48 + n mod 10)])"

declare decimal.simps [simp del]

definition digits_value :: "jsstring \<Rightarrow> nat" where
  "digits_value k = foldl (\<lambda>a c. 10 * a + (unat c - 48)) 0 k"

definition array_index :: "jsstring \<Rightarrow> nat option" where
  "array_index k = (if decimal (digits_value k) = k then Some (digits_value k) else None)"

text \<open>
  An object built from JSON text keeps the last of several members with one key.
\<close>

definition own_property :: "(jsstring \<times> jsval) list \<Rightarrow> jsstring \<Rightarrow> jsval" where
  "own_property kvs k = (case map_of (rev kvs) k of None \<Rightarrow> JUndefined | Some v \<Rightarrow> v)"

text \<open>
  \<^verbatim>\<open>v.k\<close> and \<^verbatim>\<open>v[k]\<close>. Reading a property of \<^verbatim>\<open>undefined\<close> or \<^verbatim>\<open>null\<close> throws a
  TypeError. An array and a string answer \<^verbatim>\<open>length\<close> and their indices. The keys the
  worker reads as data (\<^verbatim>\<open>choices\<close>, \<^verbatim>\<open>0\<close>, \<^verbatim>\<open>delta\<close>, \<^verbatim>\<open>content\<close>,
  \<^verbatim>\<open>finish_reason\<close>, \<^verbatim>\<open>messages\<close>, \<^verbatim>\<open>role\<close>, \<^verbatim>\<open>length\<close>, \<^verbatim>\<open>type\<close>, \<^verbatim>\<open>text\<close>,
  \<^verbatim>\<open>source\<close>, \<^verbatim>\<open>url\<close>, \<^verbatim>\<open>data\<close>, \<^verbatim>\<open>media_type\<close>, \<^verbatim>\<open>system\<close>, \<^verbatim>\<open>prompt\<close>,
  \<^verbatim>\<open>stream\<close>, \<^verbatim>\<open>temperature\<close>, \<^verbatim>\<open>max_tokens\<close>, \<^verbatim>\<open>top_p\<close>, \<^verbatim>\<open>top_k\<close>, \<^verbatim>\<open>model\<close>) name
  no method of a built-in prototype, so every other read of a value without that own
  property is \<^verbatim>\<open>undefined\<close>.
\<close>

fun Get :: "jsval \<Rightarrow> jsstring \<Rightarrow> error + jsval" where
  "Get JUndefined k = Inl TypeError"
| "Get JNull k = Inl TypeError"
| "Get (JObj kvs) k = Inr (own_property kvs k)"
| "Get (JArr xs) k =
     Inr (if k = js ''length'' then JNum (decimal (length xs))
          else case array_index k of
                 None \<Rightarrow> JUndefined
               | Some i \<Rightarrow> if i < length xs then xs ! i else JUndefined)"
| "Get (JStr s) k =
     Inr (if k = js ''length'' then JNum (decimal (length s))
          else case array_index k of
                 None \<Rightarrow> JUndefined
               | Some i \<Rightarrow> if i < length s then JStr [s ! i] else JUndefined)"
| "Get (JBool b) k = Inr JUndefined"
| "Get (JNum n) k = Inr JUndefined"

text \<open>
  \<^verbatim>\<open>v?.k\<close>: \<^verbatim>\<open>undefined\<close> when \<^verbatim>\<open>v\<close> is \<^verbatim>\<open>undefined\<close> or \<^verbatim>\<open>null\<close>. It is also
  how the model writes \<^verbatim>\<open>v.k\<close> where an earlier read of a property of \<^verbatim>\<open>v\<close> has
  succeeded, so that this one cannot throw.
\<close>

definition OptGet :: "jsval \<Rightarrow> jsstring \<Rightarrow> jsval" where
  "OptGet v k = (if v = JUndefined \<or> v = JNull then JUndefined
                 else case Get v k of Inl e \<Rightarrow> JUndefined | Inr x \<Rightarrow> x)"

text \<open>
  The language's ToString, as string concatenation and \<^verbatim>\<open>Array.prototype.join\<close> apply
  it. An array joins its elements with a comma, \<^verbatim>\<open>undefined\<close> and \<^verbatim>\<open>null\<close> elements as
  the empty string. A plain object answers \<^verbatim>\<open>[object Object]\<close> through the inherited
  \<^verbatim>\<open>toString\<close>; an own member named \<^verbatim>\<open>toString\<close> hides it, is never callable in a value
  read from JSON, and the conversion throws a TypeError.
\<close>

fun ToString :: "jsval \<Rightarrow> error + jsstring"
  and join :: "jsstring \<Rightarrow> jsval list \<Rightarrow> error + jsstring" where
  "ToString JUndefined = Inr (js ''undefined'')"
| "ToString JNull = Inr (js ''null'')"
| "ToString (JBool b) = Inr (if b then js ''true'' else js ''false'')"
| "ToString (JNum n) = Inr n"
| "ToString (JStr s) = Inr s"
| "ToString (JArr xs) = join (js '','') xs"
| "ToString (JObj kvs) =
     (if js ''toString'' \<in> fst ` set kvs then Inl TypeError
      else Inr (js ''[object Object]''))"
| "join sep [] = Inr []"
| "join sep (x # xs) =
     (case (if x = JUndefined \<or> x = JNull then Inr [] else ToString x) of
        Inl e \<Rightarrow> Inl e
      | Inr s \<Rightarrow>
          if xs = [] then Inr s
          else (case join sep xs of Inl e \<Rightarrow> Inl e | Inr t \<Rightarrow> Inr (s @ sep @ t)))"

subsection \<open>String methods\<close>

definition startsWith :: "jsstring \<Rightarrow> jsstring \<Rightarrow> bool" where
  "startsWith s p = (take (length p) s = p)"

text \<open>\<^verbatim>\<open>trim\<close> removes the language's white space and line terminators at both ends.\<close>

definition is_space :: "code_unit \<Rightarrow> bool" where
  "is_space c = (c \<in> {0x09, 0x0A, 0x0B, 0x0C, 0x0D, 0x20, 0xA0, 0x1680,
                       0x2028, 0x2029, 0x202F, 0x205F, 0x3000, 0xFEFF}
                 \<or> (0x2000 \<le> c \<and> c \<le> 0x200A))"

definition trim :: "jsstring \<Rightarrow> jsstring" where
  "trim s = rev (dropWhile is_space (rev (dropWhile is_space s)))"

text \<open>
  \<^verbatim>\<open>s.split(sep)\<close> for a separator of one code unit, as in \<^verbatim>\<open>buffer.split('\n')\<close>: the
  pieces between the separators, at least one piece.
\<close>

fun split_char :: "code_unit \<Rightarrow> jsstring \<Rightarrow> jsstring list" where
  "split_char sep [] = [[]]"
| "split_char sep (c # cs) =
     (if c = sep then [] # split_char sep cs
      else (case split_char sep cs of
              [] \<Rightarrow> [[c]]
            | l # ls \<Rightarrow> (c # l) # ls))"

definition endsWith :: "jsstring \<Rightarrow> jsstring \<Rightarrow> bool" where
  "endsWith s p = startsWith (rev s) (rev p)"

section \<open>An instance of the JSON reader\<close>

text \<open>
  The reframer takes the runtime's \<^verbatim>\<open>JSON.parse\<close> as a parameter, and what is proved of
  it holds for every reader. To run it on concrete streams, here is a reader of JSON
  text: a scanner from code units to tokens and a stack automaton from tokens to a value,
  both one pass over their input. It reads the whole grammar of JSON except that of
  numbers it knows the integer literals of at most fifteen digits, whose canonical text
  is the literal itself (\<^verbatim>\<open>-0\<close> is \<^verbatim>\<open>0\<close>); on a text with any other number literal
  this instance answers \<open>None\<close>, and no concrete run below contains one.
\<close>

datatype token = LBrace | RBrace | LBracket | RBracket | Colon | Comma | Scalar jsval

datatype scanner =
    Between
  | InString jsstring
  | Escape jsstring
  | Hex jsstring nat code_unit
  | Literal jsstring jsval
  | Digits jsstring

definition is_digit :: "code_unit \<Rightarrow> bool" where
  "is_digit c = (0x30 \<le> c \<and> c \<le> 0x39)"

definition hex_value :: "code_unit \<Rightarrow> code_unit option" where
  "hex_value c =
     (if 0x30 \<le> c \<and> c \<le> 0x39 then Some (c - 0x30)
      else if 0x41 \<le> c \<and> c \<le> 0x46 then Some (c - 0x37)
      else if 0x61 \<le> c \<and> c \<le> 0x66 then Some (c - 0x57)
      else None)"

definition scan_between :: "code_unit \<Rightarrow> (scanner \<times> token list) option" where
  "scan_between c =
     (if c = 0x20 \<or> c = 0x09 \<or> c = 0x0A \<or> c = 0x0D then Some (Between, [])
      else if c = 0x7B then Some (Between, [LBrace])
      else if c = 0x7D then Some (Between, [RBrace])
      else if c = 0x5B then Some (Between, [LBracket])
      else if c = 0x5D then Some (Between, [RBracket])
      else if c = 0x3A then Some (Between, [Colon])
      else if c = 0x2C then Some (Between, [Comma])
      else if c = 0x22 then Some (InString [], [])
      else if c = 0x74 then Some (Literal (js ''rue'') (JBool True), [])
      else if c = 0x66 then Some (Literal (js ''alse'') (JBool False), [])
      else if c = 0x6E then Some (Literal (js ''ull'') JNull, [])
      else if c = 0x2D \<or> is_digit c then Some (Digits [c], [])
      else None)"

text \<open>The number whose literal, read backwards, is \<open>t\<close>.\<close>

definition number_token :: "jsstring \<Rightarrow> token option" where
  "number_token t =
     (if t = js ''-'' \<or> 15 < length (filter is_digit t) then None
      else if rev t = js ''-0'' then Some (Scalar (JNum (js ''0'')))
      else Some (Scalar (JNum (rev t))))"

definition scan_escape :: "jsstring \<Rightarrow> code_unit \<Rightarrow> scanner option" where
  "scan_escape acc c =
     (if c = 0x22 \<or> c = 0x5C \<or> c = 0x2F then Some (InString (c # acc))
      else if c = 0x62 then Some (InString (0x08 # acc))
      else if c = 0x66 then Some (InString (0x0C # acc))
      else if c = 0x6E then Some (InString (0x0A # acc))
      else if c = 0x72 then Some (InString (0x0D # acc))
      else if c = 0x74 then Some (InString (0x09 # acc))
      else if c = 0x75 then Some (Hex acc 0 0)
      else None)"

fun scan :: "scanner \<Rightarrow> code_unit \<Rightarrow> (scanner \<times> token list) option" where
  "scan Between c = scan_between c"
| "scan (InString acc) c =
     (if c = 0x22 then Some (Between, [Scalar (JStr (rev acc))])
      else if c = 0x5C then Some (Escape acc, [])
      else if c < 0x20 then None
      else Some (InString (c # acc), []))"
| "scan (Escape acc) c =
     (case scan_escape acc c of None \<Rightarrow> None | Some st \<Rightarrow> Some (st, []))"
| "scan (Hex acc n v) c =
     (case hex_value c of
        None \<Rightarrow> None
      | Some h \<Rightarrow>
          if n = 3 then Some (InString ((16 * v + h) # acc), [])
          else Some (Hex acc (n + 1) (16 * v + h), []))"
| "scan (Literal [] v) c = None"
| "scan (Literal (x # xs) v) c =
     (if c \<noteq> x then None
      else if xs = [] then Some (Between, [Scalar v])
      else Some (Literal xs v, []))"
| "scan (Digits t) c =
     (if is_digit c then
        (if t = js ''0'' \<or> t = js ''0-'' then None else Some (Digits (c # t), []))
      else (case number_token t of
              None \<Rightarrow> None
            | Some n \<Rightarrow>
               (case scan_between c of
                  None \<Rightarrow> None
                | Some (st, out) \<Rightarrow> Some (st, n # out))))"

fun tokens :: "scanner \<Rightarrow> jsstring \<Rightarrow> token list option" where
  "tokens st [] =
     (case st of
        Between \<Rightarrow> Some []
      | Digits t \<Rightarrow> (case number_token t of None \<Rightarrow> None | Some n \<Rightarrow> Some [n])
      | _ \<Rightarrow> None)"
| "tokens st (c # cs) =
     (case scan st c of
        None \<Rightarrow> None
      | Some (st', out) \<Rightarrow>
         (case tokens st' cs of None \<Rightarrow> None | Some ts \<Rightarrow> Some (out @ ts)))"

datatype frame = InArray "jsval list" | InObject "(jsstring \<times> jsval) list" "jsstring option"

datatype expect = AValue | AValueOrClose | AKeyOrClose | AKey | AColon | ACommaOrClose | AEnd jsval

text \<open>A value is complete: it is the result, or goes into the innermost open container.\<close>

fun complete :: "jsval \<Rightarrow> frame list \<Rightarrow> (expect \<times> frame list) option" where
  "complete v [] = Some (AEnd v, [])"
| "complete v (InArray xs # fs) = Some (ACommaOrClose, InArray (xs @ [v]) # fs)"
| "complete v (InObject kvs (Some k) # fs) =
     Some (ACommaOrClose, InObject (kvs @ [(k, v)]) None # fs)"
| "complete v (InObject kvs None # fs) = None"

definition open_value :: "frame list \<Rightarrow> token \<Rightarrow> (expect \<times> frame list) option" where
  "open_value fs tok =
     (case tok of
        Scalar v \<Rightarrow> complete v fs
      | LBracket \<Rightarrow> Some (AValueOrClose, InArray [] # fs)
      | LBrace \<Rightarrow> Some (AKeyOrClose, InObject [] None # fs)
      | _ \<Rightarrow> None)"

definition close_array :: "frame list \<Rightarrow> (expect \<times> frame list) option" where
  "close_array fs = (case fs of InArray xs # fs' \<Rightarrow> complete (JArr xs) fs' | _ \<Rightarrow> None)"

definition close_object :: "frame list \<Rightarrow> (expect \<times> frame list) option" where
  "close_object fs =
     (case fs of InObject kvs None # fs' \<Rightarrow> complete (JObj kvs) fs' | _ \<Rightarrow> None)"

definition take_key :: "frame list \<Rightarrow> token \<Rightarrow> (expect \<times> frame list) option" where
  "take_key fs tok =
     (case tok of
        Scalar (JStr k) \<Rightarrow>
          (case fs of
             InObject kvs None # fs' \<Rightarrow> Some (AColon, InObject kvs (Some k) # fs')
           | _ \<Rightarrow> None)
      | _ \<Rightarrow> None)"

definition after_comma :: "frame list \<Rightarrow> (expect \<times> frame list) option" where
  "after_comma fs =
     (case fs of
        InArray xs # fs' \<Rightarrow> Some (AValue, fs)
      | InObject kvs None # fs' \<Rightarrow> Some (AKey, fs)
      | _ \<Rightarrow> None)"

definition shift :: "expect \<times> frame list \<Rightarrow> token \<Rightarrow> (expect \<times> frame list) option" where
  "shift st tok =
     (case st of (e, fs) \<Rightarrow>
        (case e of
           AValue \<Rightarrow> open_value fs tok
         | AValueOrClose \<Rightarrow> if tok = RBracket then close_array fs else open_value fs tok
         | AKeyOrClose \<Rightarrow> if tok = RBrace then close_object fs else take_key fs tok
         | AKey \<Rightarrow> take_key fs tok
         | AColon \<Rightarrow> if tok = Colon then Some (AValue, fs) else None
         | ACommaOrClose \<Rightarrow>
             if tok = Comma then after_comma fs
             else if tok = RBracket then close_array fs
             else if tok = RBrace then close_object fs
             else None
         | AEnd v \<Rightarrow> None))"

fun shift_all :: "expect \<times> frame list \<Rightarrow> token list \<Rightarrow> jsval option" where
  "shift_all st [] = (case st of (AEnd v, []) \<Rightarrow> Some v | _ \<Rightarrow> None)"
| "shift_all st (tok # toks) =
     (case shift st tok of None \<Rightarrow> None | Some st' \<Rightarrow> shift_all st' toks)"

definition JSON_parse :: "jsstring \<Rightarrow> jsval option" where
  "JSON_parse s =
     (case tokens Between s of None \<Rightarrow> None | Some toks \<Rightarrow> shift_all (AValue, []) toks)"

section \<open>The streaming text decoder\<close>

text \<open>
  \<^verbatim>\<open>new TextDecoder()\<close> decodes UTF-8, replaces malformed input by U+FFFD and drops a
  leading byte order mark. \<^verbatim>\<open>decode(value, { stream: true })\<close> keeps the decoder's state
  between calls; processStream never makes the final, flushing call. The state is the one
  of the Encoding standard's UTF-8 decoder, with the flag of the byte order mark.
\<close>

record TextDecoder =
  utf8_code_point :: "32 word"
  utf8_bytes_seen :: nat
  utf8_bytes_needed :: nat
  utf8_lower_boundary :: byte
  utf8_upper_boundary :: byte
  BOM_seen :: bool

definition new_TextDecoder :: TextDecoder where
  "new_TextDecoder =
     \<lparr>utf8_code_point = 0, utf8_bytes_seen = 0, utf8_bytes_needed = 0,
      utf8_lower_boundary = 0x80, utf8_upper_boundary = 0xBF, BOM_seen = False\<rparr>"

text \<open>The handler on a byte when no continuation byte is awaited.\<close>

definition utf8_lead :: "TextDecoder \<Rightarrow> byte \<Rightarrow> TextDecoder \<times> 32 word list" where
  "utf8_lead d b =
     (if b \<le> 0x7F then (d, [ucast b])
      else if 0xC2 \<le> b \<and> b \<le> 0xDF then
        (d\<lparr>utf8_bytes_needed := 1, utf8_code_point := ucast (b AND 0x1F)\<rparr>, [])
      else if 0xE0 \<le> b \<and> b \<le> 0xEF then
        (d\<lparr>utf8_lower_boundary := (if b = 0xE0 then 0xA0 else utf8_lower_boundary d),
           utf8_upper_boundary := (if b = 0xED then 0x9F else utf8_upper_boundary d),
           utf8_bytes_needed := 2, utf8_code_point := ucast (b AND 0xF)\<rparr>, [])
      else if 0xF0 \<le> b \<and> b \<le> 0xF4 then
        (d\<lparr>utf8_lower_boundary := (if b = 0xF0 then 0x90 else utf8_lower_boundary d),
           utf8_upper_boundary := (if b = 0xF4 then 0x8F else utf8_upper_boundary d),
           utf8_bytes_needed := 3, utf8_code_point := ucast (b AND 0x7)\<rparr>, [])
      else (d, [0xFFFD]))"

text \<open>
  The handler on any byte. A byte outside the awaited range ends the sequence with
  U+FFFD and is read again as the start of the next one.
\<close>

definition utf8_handler :: "TextDecoder \<Rightarrow> byte \<Rightarrow> TextDecoder \<times> 32 word list" where
  "utf8_handler d b =
     (if utf8_bytes_needed d = 0 then utf8_lead d b
      else if \<not> (utf8_lower_boundary d \<le> b \<and> b \<le> utf8_upper_boundary d) then
        (let (d', out) =
               utf8_lead (d\<lparr>utf8_code_point := 0, utf8_bytes_needed := 0, utf8_bytes_seen := 0,
                            utf8_lower_boundary := 0x80, utf8_upper_boundary := 0xBF\<rparr>) b
         in (d', 0xFFFD # out))
      else
        (let d1 = d\<lparr>utf8_lower_boundary := 0x80, utf8_upper_boundary := 0xBF,
                     utf8_code_point := push_bit 6 (utf8_code_point d) OR ucast (b AND 0x3F),
                     utf8_bytes_seen := utf8_bytes_seen d + 1\<rparr>
         in if utf8_bytes_seen d1 \<noteq> utf8_bytes_needed d1 then (d1, [])
            else (d1\<lparr>utf8_code_point := 0, utf8_bytes_needed := 0, utf8_bytes_seen := 0\<rparr>,
                  [utf8_code_point d1])))"

fun run_handler :: "TextDecoder \<Rightarrow> byte list \<Rightarrow> TextDecoder \<times> 32 word list" where
  "run_handler d [] = (d, [])"
| "run_handler d (b # bs) =
     (let (d1, out1) = utf8_handler d b; (d2, out2) = run_handler d1 bs
      in (d2, out1 @ out2))"

text \<open>A scalar value as UTF-16 code units.\<close>

definition utf16 :: "32 word \<Rightarrow> jsstring" where
  "utf16 cp =
     (if cp < 0x10000 then [ucast cp]
      else [0xD800 + ucast (drop_bit 10 (cp - 0x10000)),
            0xDC00 + ucast ((cp - 0x10000) AND 0x3FF)])"

text \<open>The decoded scalar values become the string; the first one is dropped if it is U+FEFF.\<close>

fun serialize :: "TextDecoder \<Rightarrow> 32 word list \<Rightarrow> TextDecoder \<times> jsstring" where
  "serialize d [] = (d, [])"
| "serialize d (item # rest) =
     (if \<not> BOM_seen d then
        (let (d', s) = serialize (d\<lparr>BOM_seen := True\<rparr>) rest
         in (d', (if item = 0xFEFF then [] else utf16 item) @ s))
      else (let (d', s) = serialize d rest in (d', utf16 item @ s)))"

definition decode :: "TextDecoder \<Rightarrow> byte list \<Rightarrow> TextDecoder \<times> jsstring" where
  "decode d chunk = (let (d1, out) = run_handler d chunk in serialize d1 out)"

section \<open>The stream reframer\<close>

text \<open>
  The events processStream writes, each as \<^verbatim>\<open>data: <json>\<close> and an empty line. The
  constructors carry the parts that vary: the message identifier of \<^verbatim>\<open>message_start\<close>,
  the \<^verbatim>\<open>delta.text\<close> of \<^verbatim>\<open>content_block_delta\<close>, the \<^verbatim>\<open>delta.stop_reason\<close> of
  \<^verbatim>\<open>message_delta\<close>.
\<close>

datatype event =
    message_start jsstring
  | content_block_delta jsval
  | message_delta jsval
  | message_stop

definition mapStopReason :: "jsval \<Rightarrow> jsval" where
  "mapStopReason finishReason =
     (if finishReason = JStr (js ''stop'') then JStr (js ''end_turn'')
      else if finishReason = JStr (js ''length'') then JStr (js ''max_tokens'')
      else if finishReason = JStr (js ''content_filter'') then JStr (js ''stop_sequence'')
      else finishReason)"

text \<open>The variables of processStream that live across reads.\<close>

record reframer =
  decoder :: TextDecoder
  buffer :: jsstring
  sentHeader :: bool
  contentAccumulator :: jsstring

definition init_reframer :: reframer where
  "init_reframer =
     \<lparr>decoder = new_TextDecoder, buffer = [], sentHeader = False, contentAccumulator = []\<rparr>"

text \<open>
  The body of the inner \<^verbatim>\<open>try\<close>, on the payload of one data line. \<^verbatim>\<open>JSON.parse\<close> is the
  runtime's; it is a parameter, \<open>None\<close> where it throws. The message identifier, made
  once from a random UUID, is a parameter too. Whatever throws does so before the first
  write and before any variable is assigned, and the \<^verbatim>\<open>catch\<close> only logs. Every read of
  the backend's body is taken to succeed and every write to the output stream to be
  accepted, so that the events written are the events the caller receives.
\<close>

definition choice_delta :: "jsval \<Rightarrow> jsval" where
  "choice_delta choice =
     (let c = OptGet (OptGet choice (js ''delta'')) (js ''content'')
      in if ToBoolean c then c else JStr [])"

definition first_choice :: "jsval \<Rightarrow> error + jsval" where
  "first_choice json =
     (case Get json (js ''choices'') of
        Inl e \<Rightarrow> Inl e
      | Inr choices \<Rightarrow> Get choices (js ''0''))"

text \<open>The two guarded blocks of writes after the header.\<close>

definition delta_events :: "jsval \<Rightarrow> event list" where
  "delta_events delta = (if ToBoolean delta then [content_block_delta delta] else [])"

definition finish_events :: "jsval \<Rightarrow> event list" where
  "finish_events finish_reason =
     (if ToBoolean finish_reason
      then [message_delta (mapStopReason finish_reason), message_stop]
      else [])"

definition try_record ::
  "(jsstring \<Rightarrow> jsval option) \<Rightarrow> jsstring \<Rightarrow> reframer \<Rightarrow> jsstring
     \<Rightarrow> error + (reframer \<times> event list)" where
  "try_record parse messageId st payload =
     (case parse payload of
        None \<Rightarrow> Inl SyntaxError
      | Some json \<Rightarrow>
         (case first_choice json of
            Inl e \<Rightarrow> Inl e
          | Inr choice \<Rightarrow>
             (case ToString (choice_delta choice) of
                Inl e \<Rightarrow> Inl e
              | Inr s \<Rightarrow>
                 Inr (st\<lparr>contentAccumulator := contentAccumulator st @ s,
                          sentHeader := True\<rparr>,
                      (if \<not> sentHeader st then [message_start messageId] else [])
                      @ delta_events (choice_delta choice)
                      @ finish_events (OptGet choice (js ''finish_reason''))))))"

definition process_line ::
  "(jsstring \<Rightarrow> jsval option) \<Rightarrow> jsstring \<Rightarrow> reframer \<Rightarrow> jsstring
     \<Rightarrow> reframer \<times> event list" where
  "process_line parse messageId st line =
     (if \<not> startsWith line (js ''data:'') then (st, [])
      else
        (let payload = trim (drop 5 line) in
         if payload = js ''[DONE]'' then (st, [])
         else (case try_record parse messageId st payload of
                 Inl e \<Rightarrow> (st, [])
               | Inr r \<Rightarrow> r)))"

fun process_lines ::
  "(jsstring \<Rightarrow> jsval option) \<Rightarrow> jsstring \<Rightarrow> reframer \<Rightarrow> jsstring list
     \<Rightarrow> reframer \<times> event list" where
  "process_lines parse messageId st [] = (st, [])"
| "process_lines parse messageId st (line # lines) =
     (let (st1, evs1) = process_line parse messageId st line;
          (st2, evs2) = process_lines parse messageId st1 lines
      in (st2, evs1 @ evs2))"

text \<open>One turn of the \<^verbatim>\<open>while\<close> loop, on the chunk a read returns.\<close>

definition read_chunk ::
  "(jsstring \<Rightarrow> jsval option) \<Rightarrow> jsstring \<Rightarrow> reframer \<Rightarrow> byte list
     \<Rightarrow> reframer \<times> event list" where
  "read_chunk parse messageId st chunk =
     (let (d, decoded) = decode (decoder st) chunk;
          lines = split_char 0x0A (buffer st @ decoded)
      in process_lines parse messageId
           (st\<lparr>decoder := d, buffer := last lines\<rparr>) (butlast lines))"

fun read_all ::
  "(jsstring \<Rightarrow> jsval option) \<Rightarrow> jsstring \<Rightarrow> reframer \<Rightarrow> byte list list
     \<Rightarrow> reframer \<times> event list" where
  "read_all parse messageId st [] = (st, [])"
| "read_all parse messageId st (chunk # chunks) =
     (let (st1, evs1) = read_chunk parse messageId st chunk;
          (st2, evs2) = read_all parse messageId st1 chunks
      in (st2, evs1 @ evs2))"

text \<open>
  processStream: the events written for the chunks the backend's body yields, in order,
  until the read that reports the end. Nothing is decoded or handled after that read: the
  piece after the last line feed stays in the buffer.
\<close>

definition processStream ::
  "(jsstring \<Rightarrow> jsval option) \<Rightarrow> jsstring \<Rightarrow> byte list list \<Rightarrow> event list" where
  "processStream parse messageId chunks =
     snd (read_all parse messageId init_reframer chunks)"

section \<open>Request translation\<close>

text \<open>A message of the backend request, \<^verbatim>\<open>{ role, content }\<close>, and the request itself.\<close>

record chat_message =
  role :: jsval
  content :: jsval

record openai_request =
  model :: jsval
  messages :: "chat_message list"
  stream :: bool
  temperature :: "jsval option"
  max_tokens :: "jsval option"
  top_p :: "jsval option"

text \<open>\<^verbatim>\<open>parts.every((part) => part.type === 'text')\<close>, which stops at the first other part.\<close>

fun every_text :: "jsval list \<Rightarrow> error + bool" where
  "every_text [] = Inr True"
| "every_text (part # parts) =
     (case Get part (js ''type'') of
        Inl e \<Rightarrow> Inl e
      | Inr t \<Rightarrow> if t = JStr (js ''text'') then every_text parts else Inr False)"

fun part_texts :: "jsval list \<Rightarrow> error + jsval list" where
  "part_texts [] = Inr []"
| "part_texts (part # parts) =
     (case Get part (js ''text'') of
        Inl e \<Rightarrow> Inl e
      | Inr t \<Rightarrow> (case part_texts parts of Inl e \<Rightarrow> Inl e | Inr ts \<Rightarrow> Inr (t # ts)))"

text \<open>The callback of the \<^verbatim>\<open>map\<close> over a mixed part list.\<close>

definition convert_part :: "jsval \<Rightarrow> error + jsval" where
  "convert_part part =
     (case Get part (js ''type'') of
        Inl e \<Rightarrow> Inl e
      | Inr t \<Rightarrow>
          if t = JStr (js ''text'') then
            Inr (JObj [(js ''type'', JStr (js ''text'')), (js ''text'', OptGet part (js ''text''))])
          else if t = JStr (js ''image'') then
            (case Get (OptGet part (js ''source'')) (js ''url'') of
               Inl e \<Rightarrow> Inl e
             | Inr u \<Rightarrow>
                 Inr (JObj
                   [(js ''type'', JStr (js ''image_url'')),
                    (js ''image_url'',
                     JObj
                       [(js ''url'',
                         if ToBoolean u then u
                         else OptGet (OptGet part (js ''source'')) (js ''data'')),
                        (js ''detail'',
                         if OptGet (OptGet part (js ''source'')) (js ''media_type'')
                              = JStr (js ''image/png'')
                         then JStr (js ''high'') else JStr (js ''low''))])]))
          else Inr JNull)"

fun convert_parts :: "jsval list \<Rightarrow> error + jsval list" where
  "convert_parts [] = Inr []"
| "convert_parts (part # parts) =
     (case convert_part part of
        Inl e \<Rightarrow> Inl e
      | Inr item \<Rightarrow>
         (case convert_parts parts of Inl e \<Rightarrow> Inl e | Inr items \<Rightarrow> Inr (item # items)))"

text \<open>
  The content of one message: a string as it is, an array by its parts, and the variable
  \<^verbatim>\<open>content\<close> left \<^verbatim>\<open>undefined\<close> for anything else.
\<close>

definition convert_content :: "jsval \<Rightarrow> error + jsval" where
  "convert_content c =
     (case c of
        JStr s \<Rightarrow> Inr (JStr s)
      | JArr parts \<Rightarrow>
         (case every_text parts of
            Inl e \<Rightarrow> Inl e
          | Inr onlyTextParts \<Rightarrow>
              if onlyTextParts then
                (case part_texts parts of
                   Inl e \<Rightarrow> Inl e
                 | Inr ts \<Rightarrow> (case join [] ts of Inl e \<Rightarrow> Inl e | Inr s \<Rightarrow> Inr (JStr s)))
              else
                (case convert_parts parts of
                   Inl e \<Rightarrow> Inl e
                 | Inr items \<Rightarrow> Inr (JArr (filter (\<lambda>item. item \<noteq> JNull) items))))
      | _ \<Rightarrow> Inr JUndefined)"

text \<open>
  The body of the loop over \<^verbatim>\<open>anthropicRequest.messages\<close>: \<open>None\<close> where it leaves by
  \<^verbatim>\<open>continue\<close>, the pushed message otherwise. \<^verbatim>\<open>message.content.length\<close> is read only
  when the role is \<^verbatim>\<open>assistant\<close>.
\<close>

definition skip_message :: "jsval \<Rightarrow> error + bool" where
  "skip_message message =
     (case Get message (js ''role'') of
        Inl e \<Rightarrow> Inl e
      | Inr r \<Rightarrow>
          if r = JStr (js ''assistant'') then
            (case Get (OptGet message (js ''content'')) (js ''length'') of
               Inl e \<Rightarrow> Inl e
             | Inr n \<Rightarrow> Inr (n = JNum (js ''0'')))
          else Inr False)"

definition convert_message :: "jsval \<Rightarrow> error + chat_message option" where
  "convert_message message =
     (case skip_message message of
        Inl e \<Rightarrow> Inl e
      | Inr skip \<Rightarrow>
          if skip then Inr None
          else (case convert_content (OptGet message (js ''content'')) of
                  Inl e \<Rightarrow> Inl e
                | Inr c \<Rightarrow> Inr (Some \<lparr>role = OptGet message (js ''role''), content = c\<rparr>)))"

fun convert_messages :: "jsval list \<Rightarrow> error + chat_message list" where
  "convert_messages [] = Inr []"
| "convert_messages (message # rest) =
     (case convert_message message of
        Inl e \<Rightarrow> Inl e
      | Inr pushed \<Rightarrow>
         (case convert_messages rest of
            Inl e \<Rightarrow> Inl e
          | Inr ms \<Rightarrow> Inr ((case pushed of None \<Rightarrow> [] | Some m \<Rightarrow> [m]) @ ms)))"

text \<open>
  What \<^verbatim>\<open>for (const message of v)\<close> runs over: the elements of an array, the code
  points of a string; any other value that passes \<^verbatim>\<open>if (v)\<close> is not iterable.
\<close>

fun code_points :: "jsstring \<Rightarrow> jsstring list" where
  "code_points [] = []"
| "code_points [c] = [[c]]"
| "code_points (c # d # cs) =
     (if 0xD800 \<le> c \<and> c \<le> 0xDBFF \<and> 0xDC00 \<le> d \<and> d \<le> 0xDFFF
      then [c, d] # code_points cs
      else [c] # code_points (d # cs))"

definition iterate :: "jsval \<Rightarrow> error + jsval list" where
  "iterate v =
     (case v of
        JArr xs \<Rightarrow> Inr xs
      | JStr s \<Rightarrow> Inr (map JStr (code_points s))
      | _ \<Rightarrow> Inl TypeError)"

text \<open>
  \<^verbatim>\<open>prompt.split(/\n\nHuman: |\n\nAssistant: /)\<close>: the pieces between the occurrences
  of the two delimiters, found from left to right.
\<close>

fun split_turns :: "jsstring \<Rightarrow> jsstring list" where
  "split_turns [] = [[]]"
| "split_turns (c # cs) =
     (if startsWith (c # cs) (js ''\<newline>\<newline>Human: '') then [] # split_turns (drop 8 cs)
      else if startsWith (c # cs) (js ''\<newline>\<newline>Assistant: '') then [] # split_turns (drop 12 cs)
      else (case split_turns cs of
              [] \<Rightarrow> [[c]]
            | p # ps \<Rightarrow> (c # p) # ps))"

text \<open>The loop over the pieces of the prompt.\<close>

fun prompt_messages :: "bool \<Rightarrow> jsstring list \<Rightarrow> chat_message list" where
  "prompt_messages isHuman [] = []"
| "prompt_messages isHuman (p # ps) =
     (let part = trim p in
      if length part = 0 then prompt_messages isHuman ps
      else \<lparr>role = JStr (if isHuman then js ''user'' else js ''assistant''),
            content = JStr part\<rparr>
           # prompt_messages (\<not> isHuman) ps)"

text \<open>
  The message list of convertAnthropicToOpenAI. A prompt that passes \<^verbatim>\<open>if\<close> and is not a
  string has no \<^verbatim>\<open>split\<close> method to call.
\<close>

definition build_messages :: "jsval \<Rightarrow> error + chat_message list" where
  "build_messages anthropicRequest =
     (case Get anthropicRequest (js ''messages'') of
        Inl e \<Rightarrow> Inl e
      | Inr ms \<Rightarrow>
          if ToBoolean ms then
            (case iterate ms of
               Inl e \<Rightarrow> Inl e
             | Inr elems \<Rightarrow>
                (case convert_messages elems of
                   Inl e \<Rightarrow> Inl e
                 | Inr out \<Rightarrow>
                     if ToBoolean (OptGet anthropicRequest (js ''system''))
                     then Inr (\<lparr>role = JStr (js ''system''),
                                 content = OptGet anthropicRequest (js ''system'')\<rparr> # out)
                     else Inr out))
          else if ToBoolean (OptGet anthropicRequest (js ''prompt'')) then
            (case OptGet anthropicRequest (js ''prompt'') of
               JStr prompt \<Rightarrow>
                 Inr (prompt_messages (startsWith (trim prompt) (js ''Human:''))
                        (split_turns prompt))
             | _ \<Rightarrow> Inl TypeError)
          else Inr [])"

text \<open>A parameter is copied when its key is not \<^verbatim>\<open>undefined\<close>.\<close>

definition defined :: "jsval \<Rightarrow> jsval option" where
  "defined v = (if v = JUndefined then None else Some v)"

record env =
  OPENAI_MODEL_ID :: jsval
  ANTHROPIC_API_KEYS :: "jsstring option"

definition convertAnthropicToOpenAI :: "jsval \<Rightarrow> env \<Rightarrow> error + openai_request" where
  "convertAnthropicToOpenAI anthropicRequest e =
     (case build_messages anthropicRequest of
        Inl err \<Rightarrow> Inl err
      | Inr ms \<Rightarrow>
          Inr \<lparr>model = OPENAI_MODEL_ID e,
               messages = ms,
               stream = ToBoolean (OptGet anthropicRequest (js ''stream'')),
               temperature = defined (OptGet anthropicRequest (js ''temperature'')),
               max_tokens = defined (OptGet anthropicRequest (js ''max_tokens'')),
               top_p = defined (OptGet anthropicRequest (js ''top_p''))\<rparr>)"

section \<open>Response translation\<close>

fun get_path :: "jsval \<Rightarrow> jsstring list \<Rightarrow> error + jsval" where
  "get_path v [] = Inr v"
| "get_path v (k # ks) = (case Get v k of Inl e \<Rightarrow> Inl e | Inr x \<Rightarrow> get_path x ks)"

text \<open>
  convertOpenAIToAnthropic returns an object literal; the identifier is made from a
  random UUID and is a parameter here.
\<close>

definition convertOpenAIToAnthropic :: "jsstring \<Rightarrow> jsval \<Rightarrow> jsval \<Rightarrow> error + jsval" where
  "convertOpenAIToAnthropic messageId openaiResponse originalRequest =
     (case get_path openaiResponse [js ''choices'', js ''0'', js ''message'', js ''content''] of
        Inl e \<Rightarrow> Inl e
      | Inr c \<Rightarrow>
         (case get_path openaiResponse [js ''usage'', js ''prompt_tokens''] of
            Inl e \<Rightarrow> Inl e
          | Inr input_tokens \<Rightarrow>
              Inr (JObj
                [(js ''id'', JStr messageId),
                 (js ''type'', JStr (js ''message'')),
                 (js ''role'', JStr (js ''assistant'')),
                 (js ''content'', c),
                 (js ''model'',
                  if ToBoolean (OptGet originalRequest (js ''model''))
                  then OptGet originalRequest (js ''model'') else JStr (js ''claude-proxy'')),
                 (js ''stop_reason'',
                  mapStopReason
                    (OptGet (OptGet (OptGet openaiResponse (js ''choices'')) (js ''0''))
                            (js ''finish_reason''))),
                 (js ''stop_sequence'', JNull),
                 (js ''usage'',
                  JObj [(js ''input_tokens'', input_tokens),
                        (js ''output_tokens'',
                         OptGet (OptGet openaiResponse (js ''usage''))
                                (js ''completion_tokens''))])])))"

section \<open>The request handler\<close>

text \<open>
  What the handler reads of the incoming request: the method, the path of the URL, the
  \<^verbatim>\<open>Authorization\<close> header if there is one, and the body as \<^verbatim>\<open>json()\<close> parses it
  (\<open>None\<close> where that rejects). The backend's reply to the outgoing \<^verbatim>\<open>fetch\<close> is a
  parameter: a function of the translated request, \<open>None\<close> where the call rejects.
\<close>

record http_request =
  request_method :: jsstring
  pathname :: jsstring
  authorization :: "jsstring option"
  request_json :: "jsval option"

record backend_response =
  ok :: bool
  status :: nat
  response_json :: "jsval option"
  body :: "byte list list"

datatype detail = Fixed jsstring | Backend jsval | Thrown error

datatype response =
    Plain nat jsstring
  | ErrorJson nat jsstring detail
  | MessageJson jsval
  | EventStream "event list"

text \<open>The \<^verbatim>\<open>try\<close> block of the handler; \<open>Inl\<close> is what its \<^verbatim>\<open>catch\<close> receives.\<close>

definition try_fetch ::
  "(jsstring \<Rightarrow> jsval option) \<Rightarrow> (openai_request \<Rightarrow> backend_response option) \<Rightarrow> jsstring
     \<Rightarrow> http_request \<Rightarrow> env \<Rightarrow> error + response" where
  "try_fetch parse backend messageId request e =
     (case request_json request of
        None \<Rightarrow> Inl SyntaxError
      | Some anthropicRequest \<Rightarrow>
         (case Get anthropicRequest (js ''stream'') of
            Inl err \<Rightarrow> Inl err
          | Inr s \<Rightarrow>
             (case convertAnthropicToOpenAI anthropicRequest e of
                Inl err \<Rightarrow> Inl err
              | Inr openaiRequest \<Rightarrow>
                 (case backend openaiRequest of
                    None \<Rightarrow> Inl TypeError
                  | Some openaiResponse \<Rightarrow>
                      if \<not> ok openaiResponse then
                        (case response_json openaiResponse of
                           None \<Rightarrow> Inl SyntaxError
                         | Some error \<Rightarrow>
                            (case Get error (js ''error'') of
                               Inl err \<Rightarrow> Inl err
                             | Inr ee \<Rightarrow>
                                 Inr (ErrorJson (status openaiResponse) (js ''proxy_error'')
                                        (Backend (if ToBoolean (OptGet ee (js ''message''))
                                                  then OptGet ee (js ''message'')
                                                  else JStr (js ''Unknown error''))))))
                      else if s = JBool True then
                        Inr (EventStream (processStream parse messageId (body openaiResponse)))
                      else
                        (case response_json openaiResponse of
                           None \<Rightarrow> Inl SyntaxError
                         | Some openaiData \<Rightarrow>
                            (case convertOpenAIToAnthropic messageId openaiData anthropicRequest of
                               Inl err \<Rightarrow> Inl err
                             | Inr r \<Rightarrow> Inr (MessageJson r)))))))"

definition fetch ::
  "(jsstring \<Rightarrow> jsval option) \<Rightarrow> (openai_request \<Rightarrow> backend_response option) \<Rightarrow> jsstring
     \<Rightarrow> http_request \<Rightarrow> env \<Rightarrow> response" where
  "fetch parse backend messageId request e =
     (if request_method request \<noteq> js ''POST'' then Plain 405 (js ''Method not allowed'')
      else if \<not> endsWith (pathname request) (js ''/messages'')
              \<and> \<not> endsWith (pathname request) (js ''/completions'')
      then Plain 404 (js ''Not found'')
      else
        (case authorization request of
           None \<Rightarrow>
             ErrorJson 401 (js ''authentication_error'')
               (Fixed (js ''Missing or invalid Authorization header. Please provide a valid API key.''))
         | Some authHeader \<Rightarrow>
             if authHeader = [] \<or> \<not> startsWith authHeader (js ''Bearer '') then
               ErrorJson 401 (js ''authentication_error'')
                 (Fixed (js ''Missing or invalid Authorization header. Please provide a valid API key.''))
             else
               (let validApiKeys =
                      (case ANTHROPIC_API_KEYS e of
                         None \<Rightarrow> []
                       | Some keys \<Rightarrow> if keys = [] then [] else split_char 0x2C keys)
                in if length validApiKeys = 0 \<or> drop 7 authHeader \<notin> set validApiKeys then
                     ErrorJson 401 (js ''authentication_error'')
                       (Fixed (js ''Invalid API key provided.''))
                   else
                     (case try_fetch parse backend messageId request e of
                        Inl err \<Rightarrow> ErrorJson 500 (js ''proxy_error'') (Thrown err)
                      | Inr r \<Rightarrow> r))))"

section \<open>Notions for the statements\<close>

text \<open>
  The complete lines of a stream: its bytes decoded from the start, split at the line
  feeds, without the piece after the last line feed.
\<close>

definition stream_lines :: "byte list list \<Rightarrow> jsstring list" where
  "stream_lines chunks =
     butlast (split_char 0x0A (snd (decode new_TextDecoder (concat chunks))))"

text \<open>
  The record of a line, if the line is one that the inner \<^verbatim>\<open>try\<close> block handles to its
  end: a data line other than \<^verbatim>\<open>[DONE]\<close> whose payload parses, whose first choice can be
  read and whose delta converts to a string. The record is the delta and the finish
  reason the block reads; a line that has none is passed over without a write.
\<close>

definition record_of :: "(jsstring \<Rightarrow> jsval option) \<Rightarrow> jsstring \<Rightarrow> (jsval \<times> jsval) option" where
  "record_of parse line =
     (if \<not> startsWith line (js ''data:'') then None
      else if trim (drop 5 line) = js ''[DONE]'' then None
      else (case parse (trim (drop 5 line)) of
              None \<Rightarrow> None
            | Some json \<Rightarrow>
               (case first_choice json of
                  Inl e \<Rightarrow> None
                | Inr choice \<Rightarrow>
                   (case ToString (choice_delta choice) of
                      Inl e \<Rightarrow> None
                    | Inr s \<Rightarrow> Some (choice_delta choice, OptGet choice (js ''finish_reason''))))))"

text \<open>The events of the records of some lines, the header apart.\<close>

definition record_events :: "jsval \<times> jsval \<Rightarrow> event list" where
  "record_events r = delta_events (fst r) @ finish_events (snd r)"

definition lines_events :: "(jsstring \<Rightarrow> jsval option) \<Rightarrow> jsstring list \<Rightarrow> event list" where
  "lines_events parse lines = concat (map record_events (List.map_filter (record_of parse) lines))"

text \<open>Which event a written event is.\<close>

definition is_message_start :: "event \<Rightarrow> bool" where
  "is_message_start e = (case e of message_start i \<Rightarrow> True | _ \<Rightarrow> False)"

definition is_content_block_delta :: "event \<Rightarrow> bool" where
  "is_content_block_delta e = (case e of content_block_delta d \<Rightarrow> True | _ \<Rightarrow> False)"



text \<open>
  A request that passes the checks of the handler before its \<^verbatim>\<open>try\<close> block: the method,
  the path, the \<^verbatim>\<open>Authorization\<close> header and the key.
\<close>

definition authorized :: "http_request \<Rightarrow> env \<Rightarrow> bool" where
  "authorized request e =
     (request_method request = js ''POST''
      \<and> (endsWith (pathname request) (js ''/messages'')
         \<or> endsWith (pathname request) (js ''/completions''))
      \<and> (case authorization request of
            None \<Rightarrow> False
          | Some authHeader \<Rightarrow>
              authHeader \<noteq> [] \<and> startsWith authHeader (js ''Bearer '')
              \<and> (case ANTHROPIC_API_KEYS e of
                    None \<Rightarrow> False
                  | Some keys \<Rightarrow>
                      keys \<noteq> [] \<and> drop 7 authHeader \<in> set (split_char 0x2C keys))))"

section \<open>Concrete streams\<close>

text \<open>The bytes of a text of ASCII characters.\<close>

definition ascii :: "string \<Rightarrow> byte list" where
  "ascii s = map of_char s"

text \<open>
  A stream in three chunks: the first ends inside the two bytes of U+00E9, the second
  inside a JSON payload.
\<close>

definition cafe_chunks :: "byte list list" where
  \<open>cafe_chunks =
     [ascii ''data: {"choices":[{"delta":{"content":"caf'' @ [0xC3],
      [0xA9] @ ascii ''"}}]}\<newline>\<newline>data: {"choi'',
      ascii ''ces":[{"delta":{},"finish_reason":"stop"}]}\<newline>\<newline>data: [DONE]\<newline>\<newline>'']\<close>




text \<open>
  A stream of one record that names the role and has neither delta text nor a finish
  reason, and a stream with no record at all.
\<close>

definition role_line :: jsstring where
  \<open>role_line = js ''data: {"choices":[{"delta":{"role":"assistant"}}]}''\<close>

definition role_chunks :: "byte list list" where
  \<open>role_chunks = [ascii ''data: {"choices":[{"delta":{"role":"assistant"}}]}\<newline>\<newline>'']\<close>

definition done_chunks :: "byte list list" where
  \<open>done_chunks = [ascii '': keep-alive\<newline>\<newline>data: [DONE]\<newline>\<newline>'']\<close>

text \<open>
  Two records with a data line between them whose payload is cut short, and the same
  stream without that line.
\<close>

definition a_line :: jsstring where
  \<open>a_line = js ''data: {"choices":[{"delta":{"content":"a"}}]}''\<close>

definition b_line :: jsstring where
  \<open>b_line = js ''data: {"choices":[{"delta":{"content":"b"}}]}''\<close>

definition cut_line :: jsstring where
  \<open>cut_line = js ''data: {"choices":[{"del''\<close>

definition skipped_chunks :: "byte list list" where
  \<open>skipped_chunks =
     [ascii ''data: {"choices":[{"delta":{"content":"a"}}]}\<newline>data: {"choices":[{"del'',
      ascii ''\<newline>data: {"choices":[{"delta":{"content":"b"}}]}\<newline>'']\<close>

definition clean_chunks :: "byte list list" where
  \<open>clean_chunks =
     [ascii ''data: {"choices":[{"delta":{"content":"a"}}]}\<newline>'',
      ascii ''data: {"choices":[{"delta":{"content":"b"}}]}\<newline>'']\<close>

section \<open>Concrete requests\<close>

definition example_env :: env where
  "example_env =
     \<lparr>OPENAI_MODEL_ID = JStr (js ''gpt-4o''), ANTHROPIC_API_KEYS = Some (js ''key-1,key-2'')\<rparr>"

definition message_of :: "string \<Rightarrow> jsval \<Rightarrow> jsval" where
  "message_of r c = JObj [(js ''role'', JStr (js r)), (js ''content'', c)]"


definition hello_prompt :: jsstring where
  "hello_prompt = js ''\<newline>\<newline>Human: Hi\<newline>\<newline>Assistant: Hello''"





definition system_prompt_request :: jsval where
  "system_prompt_request =
     JObj [(js ''prompt'', JStr hello_prompt), (js ''system'', JStr (js ''Be brief''))]"

definition system_messages_request :: jsval where
  "system_messages_request =
     JObj [(js ''messages'', JArr [message_of ''user'' (JStr (js ''Hi''))]),
           (js ''system'', JStr (js ''Be brief''))]"



text \<open>An authorized request whose second message is an assistant message with null content.\<close>

definition null_request :: jsval where
  "null_request =
     JObj [(js ''messages'',
            JArr [message_of ''user'' (JStr (js ''Hi'')), message_of ''assistant'' JNull])]"

definition null_http_request :: http_request where
  "null_http_request =
     \<lparr>request_method = js ''POST'', pathname = js ''/v1/messages'',
      authorization = Some (js ''Bearer key-2''), request_json = Some null_request\<rparr>"

section \<open>The decoder and the line buffer across chunks\<close>

lemma utf8_lead_BOM:
  "utf8_lead (d\<lparr>BOM_seen := x\<rparr>) b = (case utf8_lead d b of (d', out) \<Rightarrow> (d'\<lparr>BOM_seen := x\<rparr>, out))"
  by (simp add: utf8_lead_def)

lemma utf8_handler_BOM:
  "utf8_handler (d\<lparr>BOM_seen := x\<rparr>) b = (case utf8_handler d b of (d', out) \<Rightarrow> (d'\<lparr>BOM_seen := x\<rparr>, out))"
  by (simp add: utf8_handler_def utf8_lead_def Let_def split: prod.splits)

lemma run_handler_BOM:
  "run_handler (d\<lparr>BOM_seen := x\<rparr>) bs = (case run_handler d bs of (d', out) \<Rightarrow> (d'\<lparr>BOM_seen := x\<rparr>, out))"
  by (induction bs arbitrary: d) (simp_all add: utf8_handler_BOM split: prod.splits)

lemma utf8_handler_keeps_BOM: "BOM_seen (fst (utf8_handler d b)) = BOM_seen d"
  by (simp add: utf8_handler_def utf8_lead_def Let_def split: prod.splits)

lemma run_handler_keeps_BOM: "BOM_seen (fst (run_handler d bs)) = BOM_seen d"
  by (induction bs arbitrary: d) (simp_all add: case_prod_beta utf8_handler_keeps_BOM)

lemma run_handler_append:
  "run_handler d (a @ b) =
     (case run_handler d a of (d1, o1) \<Rightarrow>
        (case run_handler d1 b of (d2, o2) \<Rightarrow> (d2, o1 @ o2)))"
  by (induction a arbitrary: d) (simp_all split: prod.splits)

lemma serialize_fst: "fst (serialize d out) = d\<lparr>BOM_seen := (BOM_seen d \<or> out \<noteq> [])\<rparr>"
  by (induction out arbitrary: d) (simp_all add: case_prod_beta)

lemma serialize_snd_cong:
  "BOM_seen d = BOM_seen d' \<Longrightarrow> snd (serialize d out) = snd (serialize d' out)"
proof (induction out arbitrary: d d')
  case Nil
  show ?case by simp
next
  case (Cons item rest)
  have a: "snd (serialize d rest) = snd (serialize d' rest)"
    using Cons by blast
  have b: "snd (serialize (d\<lparr>BOM_seen := True\<rparr>) rest) = snd (serialize (d'\<lparr>BOM_seen := True\<rparr>) rest)"
    by (rule Cons.IH) simp
  show ?case using a b Cons.prems by (simp add: case_prod_beta)
qed

lemma serialize_append:
  "serialize d (o1 @ o2) =
     (case serialize d o1 of (d1, s1) \<Rightarrow>
        (case serialize d1 o2 of (d2, s2) \<Rightarrow> (d2, s1 @ s2)))"
  by (induction o1 arbitrary: d) (simp_all split: prod.splits)

lemma decode_append:
  "decode d (a @ b) =
     (case decode d a of (d1, s1) \<Rightarrow>
        (case decode d1 b of (d2, s2) \<Rightarrow> (d2, s1 @ s2)))"
proof -
  obtain e1 o1 where r1: "run_handler d a = (e1, o1)" by (cases "run_handler d a")
  obtain e2 o2 where r2: "run_handler e1 b = (e2, o2)" by (cases "run_handler e1 b")
  obtain f1 s1 where z1: "serialize e1 o1 = (f1, s1)" by (cases "serialize e1 o1")
  have f1: "f1 = e1\<lparr>BOM_seen := (BOM_seen e1 \<or> o1 \<noteq> [])\<rparr>"
    using serialize_fst [of e1 o1] z1 by simp
  have r2': "run_handler f1 b = (e2\<lparr>BOM_seen := (BOM_seen e1 \<or> o1 \<noteq> [])\<rparr>, o2)"
    unfolding f1 by (simp add: run_handler_BOM r2)
  have bom: "BOM_seen e2 = BOM_seen e1"
    using run_handler_keeps_BOM [of e1 b] r2 by simp
  obtain g1 t1 where z2: "serialize e2 o1 = (g1, t1)" by (cases "serialize e2 o1")
  have t1: "t1 = s1"
    using serialize_snd_cong [of e2 e1 o1] bom z1 z2 by simp
  have g1: "g1 = e2\<lparr>BOM_seen := (BOM_seen e1 \<or> o1 \<noteq> [])\<rparr>"
    using serialize_fst [of e2 o1] z2 bom by simp
  show ?thesis
    by (simp add: decode_def run_handler_append r1 r2 z1 r2' serialize_append z2 t1 g1)
qed

lemma decode_Nil: "decode d [] = (d, [])"
  by (simp add: decode_def)

lemma split_char_nonempty: "split_char sep s \<noteq> []"
  by (induction s) (simp_all split: list.splits)

lemma split_char_no_sep: "sep \<notin> set s \<Longrightarrow> split_char sep s = [s]"
  by (induction s) auto

lemma last_split_char_no_sep: "sep \<notin> set (last (split_char sep s))"
  by (induction s) (auto simp: split_char_nonempty split: list.splits)

lemma split_char_append:
  "split_char sep (x @ y) =
     butlast (split_char sep x)
     @ ((last (split_char sep x) @ hd (split_char sep y)) # tl (split_char sep y))"
proof (induction x)
  case Nil
  show ?case using split_char_nonempty [of sep y] by (cases "split_char sep y") simp_all
next
  case (Cons c x)
  show ?case
  proof (cases "c = sep")
    case True
    then show ?thesis using Cons split_char_nonempty [of sep x] by simp
  next
    case False
    obtain l ls where x: "split_char sep x = l # ls"
      using split_char_nonempty [of sep x] by (cases "split_char sep x") auto
    show ?thesis using False Cons x by (cases ls) simp_all
  qed
qed

lemma split_char_carry:
  "split_char sep (x @ y) =
     butlast (split_char sep x) @ split_char sep (last (split_char sep x) @ y)"
proof -
  have "split_char sep (last (split_char sep x)) = [last (split_char sep x)]"
    by (rule split_char_no_sep) (rule last_split_char_no_sep)
  then show ?thesis
    using split_char_append [of sep x y] split_char_append [of sep "last (split_char sep x)" y]
    by simp
qed


section \<open>The events of a stream\<close>

lemma process_line_record:
  "process_line parse mid st line =
     (case record_of parse line of
        None \<Rightarrow> (st, [])
      | Some r \<Rightarrow>
          (st\<lparr>contentAccumulator := contentAccumulator st @ projr (ToString (fst r)),
              sentHeader := True\<rparr>,
           (if \<not> sentHeader st then [message_start mid] else []) @ record_events r))"
  by (simp add: process_line_def record_of_def try_record_def record_events_def Let_def
           split: option.splits sum.splits)

lemma map_filter_Cons:
  "List.map_filter f (x # xs) = (case f x of None \<Rightarrow> [] | Some y \<Rightarrow> [y]) @ List.map_filter f xs"
  by (simp add: List.map_filter_def split: option.splits)

lemma map_filter_append: "List.map_filter f (xs @ ys) = List.map_filter f xs @ List.map_filter f ys"
  by (simp add: List.map_filter_def)

lemma lines_events_Nil: "lines_events parse [] = []"
  by (simp add: lines_events_def List.map_filter_def)

lemma lines_events_Cons:
  "lines_events parse (l # ls) =
     (case record_of parse l of None \<Rightarrow> [] | Some r \<Rightarrow> record_events r) @ lines_events parse ls"
  by (simp add: lines_events_def map_filter_Cons split: option.splits)

lemma lines_events_append:
  "lines_events parse (xs @ ys) = lines_events parse xs @ lines_events parse ys"
  by (simp add: lines_events_def map_filter_append)

lemma lines_events_none:
  "List.map_filter (record_of parse) ls = [] \<Longrightarrow> lines_events parse ls = []"
  by (simp add: lines_events_def)

lemma process_lines_frame:
  "decoder (fst (process_lines parse mid st ls)) = decoder st
   \<and> buffer (fst (process_lines parse mid st ls)) = buffer st
   \<and> sentHeader (fst (process_lines parse mid st ls))
       = (sentHeader st \<or> List.map_filter (record_of parse) ls \<noteq> [])"
proof (induction ls arbitrary: st)
  case Nil
  show ?case by (simp add: List.map_filter_def)
next
  case (Cons l ls)
  show ?case
    using Cons [of "fst (process_line parse mid st l)"]
    by (simp add: case_prod_beta process_line_record map_filter_Cons split: option.splits)
qed

lemma process_lines_events:
  "snd (process_lines parse mid st ls) =
     (if sentHeader st \<or> List.map_filter (record_of parse) ls = [] then lines_events parse ls
      else message_start mid # lines_events parse ls)"
proof (induction ls arbitrary: st)
  case Nil
  show ?case by (simp add: lines_events_Nil)
next
  case (Cons l ls)
  show ?case
    using Cons [of "fst (process_line parse mid st l)"]
    by (simp add: case_prod_beta process_line_record map_filter_Cons lines_events_Cons
          lines_events_none split: option.splits)
qed

lemma read_chunk_frame:
  "decoder (fst (read_chunk parse mid st chunk)) = fst (decode (decoder st) chunk)
   \<and> buffer (fst (read_chunk parse mid st chunk))
       = last (split_char 0x0A (buffer st @ snd (decode (decoder st) chunk)))
   \<and> sentHeader (fst (read_chunk parse mid st chunk))
       = (sentHeader st
          \<or> List.map_filter (record_of parse)
               (butlast (split_char 0x0A (buffer st @ snd (decode (decoder st) chunk)))) \<noteq> [])"
  by (simp add: read_chunk_def Let_def case_prod_beta process_lines_frame)

lemma read_chunk_events:
  "snd (read_chunk parse mid st chunk) =
     (let ls = butlast (split_char 0x0A (buffer st @ snd (decode (decoder st) chunk)))
      in if sentHeader st \<or> List.map_filter (record_of parse) ls = [] then lines_events parse ls
         else message_start mid # lines_events parse ls)"
  by (simp add: read_chunk_def Let_def case_prod_beta process_lines_events)

lemma read_all_events:
  "0x0A \<notin> set (buffer st) \<Longrightarrow>
   snd (read_all parse mid st chunks) =
     (let ls = butlast (split_char 0x0A (buffer st @ snd (decode (decoder st) (concat chunks))))
      in if sentHeader st \<or> List.map_filter (record_of parse) ls = [] then lines_events parse ls
         else message_start mid # lines_events parse ls)"
proof (induction chunks arbitrary: st)
  case Nil
  then show ?case
    by (simp add: decode_Nil split_char_no_sep lines_events_Nil List.map_filter_def)
next
  case (Cons c cs)
  define t1 where "t1 = snd (decode (decoder st) c)"
  define d1 where "d1 = fst (decode (decoder st) c)"
  define t2 where "t2 = snd (decode d1 (concat cs))"
  define A where "A = butlast (split_char 0x0A (buffer st @ t1))"
  define b1 where "b1 = last (split_char 0x0A (buffer st @ t1))"
  define B where "B = butlast (split_char 0x0A (b1 @ t2))"
  define st1 where "st1 = fst (read_chunk parse mid st c)"
  have frame: "decoder st1 = d1" "buffer st1 = b1"
    "sentHeader st1 = (sentHeader st \<or> List.map_filter (record_of parse) A \<noteq> [])"
    using read_chunk_frame [of parse mid st c] by (simp_all add: st1_def d1_def b1_def A_def t1_def)
  have nl: "0x0A \<notin> set (buffer st1)"
    unfolding frame b1_def by (rule last_split_char_no_sep)
  have ih: "snd (read_all parse mid st1 cs) =
      (if sentHeader st1 \<or> List.map_filter (record_of parse) B = [] then lines_events parse B
       else message_start mid # lines_events parse B)"
    using Cons.IH [OF nl] by (simp add: frame B_def t2_def Let_def)
  have e1: "snd (read_chunk parse mid st c) =
      (if sentHeader st \<or> List.map_filter (record_of parse) A = [] then lines_events parse A
       else message_start mid # lines_events parse A)"
    by (simp add: read_chunk_events A_def t1_def Let_def)
  have dec: "snd (decode (decoder st) (concat (c # cs))) = t1 @ t2"
    by (simp add: decode_append case_prod_beta t1_def t2_def d1_def)
  have "split_char 0x0A (buffer st @ t1 @ t2) = A @ split_char 0x0A (b1 @ t2)"
    using split_char_carry [of "0x0A" "buffer st @ t1" t2] by (simp add: A_def b1_def)
  then have lines: "butlast (split_char 0x0A (buffer st @ t1 @ t2)) = A @ B"
    by (simp add: butlast_append split_char_nonempty B_def)
  have "snd (read_all parse mid st (c # cs))
          = snd (read_chunk parse mid st c) @ snd (read_all parse mid st1 cs)"
    by (simp add: case_prod_beta st1_def)
  then show ?case
    unfolding dec Let_def lines e1 ih frame
    by (auto simp: map_filter_append lines_events_append lines_events_none)
qed

lemma processStream_events:
  "processStream parse mid chunks =
     (if List.map_filter (record_of parse) (stream_lines chunks) = [] then []
      else message_start mid # lines_events parse (stream_lines chunks))"
proof -
  have "0x0A \<notin> set (buffer init_reframer)" by (simp add: init_reframer_def)
  from read_all_events [OF this, of parse mid chunks] show ?thesis
    by (simp add: processStream_def stream_lines_def init_reframer_def Let_def lines_events_none)
qed

lemma lines_events_no_start: "e \<in> set (lines_events parse ls) \<Longrightarrow> \<not> is_message_start e"
  by (auto simp: lines_events_def record_events_def delta_events_def finish_events_def
        is_message_start_def split: if_splits)

lemma lines_events_skip:
  "record_of parse l = None \<Longrightarrow> lines_events parse (pre @ l # post) = lines_events parse (pre @ post)"
  by (simp add: lines_events_append lines_events_Cons)

lemma map_filter_skip:
  "f l = None \<Longrightarrow> List.map_filter f (pre @ l # post) = List.map_filter f (pre @ post)"
  by (simp add: map_filter_append map_filter_Cons)

section \<open>Property reads and the translation of messages\<close>

lemma Get_error: "Get v k = Inl e \<Longrightarrow> e = TypeError"
  by (cases v) simp_all

lemma Get_OptGet: "Get v k = Inr x \<Longrightarrow> OptGet v k = x"
  by (cases v) (simp_all add: OptGet_def)

lemma Get_defined: "Get v k = Inr x \<Longrightarrow> v \<noteq> JUndefined \<and> v \<noteq> JNull"
  by (cases v) simp_all

lemma Get_total: "v \<noteq> JUndefined \<Longrightarrow> v \<noteq> JNull \<Longrightarrow> Get v k = Inr (OptGet v k)"
  by (cases v) (simp_all add: OptGet_def)

lemma ToString_error: "ToString v = Inl e \<Longrightarrow> e = TypeError"
  and join_error: "join sep xs = Inl e \<Longrightarrow> e = TypeError"
  by (induction v and sep xs rule: ToString_join.induct)
     (auto split: sum.splits if_splits)

lemma every_text_error: "every_text ps = Inl e \<Longrightarrow> e = TypeError"
  by (induction ps) (auto split: sum.splits if_splits dest: Get_error)

lemma part_texts_error: "part_texts ps = Inl e \<Longrightarrow> e = TypeError"
  by (induction ps) (auto split: sum.splits dest: Get_error)

lemma convert_part_error: "convert_part p = Inl e \<Longrightarrow> e = TypeError"
  by (auto simp: convert_part_def split: sum.splits if_splits dest: Get_error)

lemma convert_parts_error: "convert_parts ps = Inl e \<Longrightarrow> e = TypeError"
  by (induction ps) (auto split: sum.splits dest: convert_part_error)

lemma convert_content_error: "convert_content c = Inl e \<Longrightarrow> e = TypeError"
  by (auto simp: convert_content_def split: jsval.splits sum.splits if_splits
        dest: every_text_error part_texts_error convert_parts_error join_error)

lemma skip_message_error: "skip_message m = Inl e \<Longrightarrow> e = TypeError"
  by (auto simp: skip_message_def split: sum.splits if_splits dest: Get_error)

lemma convert_message_error: "convert_message m = Inl e \<Longrightarrow> e = TypeError"
  by (auto simp: convert_message_def split: sum.splits if_splits
        dest: skip_message_error convert_content_error)

lemma convert_messages_error: "convert_messages ms = Inl e \<Longrightarrow> e = TypeError"
  by (induction ms) (auto split: sum.splits dest: convert_message_error)

lemma convert_messages_throw:
  "m \<in> set ms \<Longrightarrow> convert_message m = Inl TypeError \<Longrightarrow> convert_messages ms = Inl TypeError"
proof (induction ms)
  case Nil
  then show ?case by simp
next
  case (Cons x xs)
  show ?case
  proof (cases "convert_message x")
    case (Inl e)
    then show ?thesis using convert_message_error [OF Inl] by simp
  next
    case (Inr pushed)
    then have "x \<noteq> m" using Cons.prems(2) by auto
    then have "convert_messages xs = Inl TypeError" using Cons by simp
    then show ?thesis using Inr by simp
  qed
qed

lemma null_content_throws:
  assumes "Get m (js ''role'') = Inr (JStr (js ''assistant''))"
    and "Get m (js ''content'') = Inr JNull \<or> Get m (js ''content'') = Inr JUndefined"
  shows "convert_message m = Inl TypeError"
proof -
  have "OptGet m (js ''content'') = JNull \<or> OptGet m (js ''content'') = JUndefined"
    using assms(2) Get_OptGet by blast
  then have "Get (OptGet m (js ''content'')) (js ''length'') = Inl TypeError"
    by auto
  then show ?thesis
    using assms(1) by (simp add: convert_message_def skip_message_def)
qed

lemma null_content_kept:
  assumes "Get m (js ''role'') = Inr r" and "r \<noteq> JStr (js ''assistant'')"
    and "Get m (js ''content'') = Inr JNull \<or> Get m (js ''content'') = Inr JUndefined"
  shows "convert_message m = Inr (Some \<lparr>role = r, content = JUndefined\<rparr>)"
proof -
  have c: "OptGet m (js ''content'') = JNull \<or> OptGet m (js ''content'') = JUndefined"
    using assms(3) Get_OptGet by blast
  have r: "OptGet m (js ''role'') = r"
    using assms(1) by (rule Get_OptGet)
  have "convert_content (OptGet m (js ''content'')) = Inr JUndefined"
    using c by (auto simp: convert_content_def)
  then show ?thesis
    using assms(1,2) r by (simp add: convert_message_def skip_message_def)
qed

lemma fetch_authorized:
  "authorized q e \<Longrightarrow>
   fetch parse backend mid q e =
     (case try_fetch parse backend mid q e of
        Inl err \<Rightarrow> ErrorJson 500 (js ''proxy_error'') (Thrown err)
      | Inr r \<Rightarrow> r)"
  by (auto simp: authorized_def fetch_def Let_def split: option.splits)











section \<open>Claims about the stream reframer\<close>

text \<open>
  C1. However the bytes of a backend stream are cut into chunks, also inside a multi-byte
  character or inside a JSON payload, processStream writes the same events, in the same
  order, as for the whole stream in one chunk.
\<close>

theorem C1_chunking:
  "processStream parse mid chunks = processStream parse mid [concat chunks]"
proof -
  have "stream_lines [concat chunks] = stream_lines chunks"
    by (simp add: stream_lines_def)
  then show ?thesis
    by (simp add: processStream_events)
qed

text \<open>
  C1 at \<open>cafe_chunks\<close>, whose first chunk ends between the two bytes of U+00E9 and whose
  second ends inside a payload: the delta carries the whole character.
\<close>

theorem C1_chunking_witness:
  "processStream JSON_parse (js ''msg_1'') cafe_chunks
     = [message_start (js ''msg_1''), content_block_delta (JStr (js ''caf'' @ [0xE9])),
        message_delta (JStr (js ''end_turn'')), message_stop]"
proof -
  have "processStream JSON_parse (js ''msg_1'') [concat cafe_chunks]
     = [message_start (js ''msg_1''), content_block_delta (JStr (js ''caf'' @ [0xE9])),
        message_delta (JStr (js ''end_turn'')), message_stop]"
    by code_simp
  then show ?thesis using C1_chunking [of JSON_parse "js ''msg_1''" cafe_chunks] by simp
qed




text \<open>
  C3. Over a whole stream \<^verbatim>\<open>message_start\<close> is written at most once, and before every
  \<^verbatim>\<open>content_block_delta\<close> that is written a \<^verbatim>\<open>message_start\<close> has been written.
\<close>

theorem C3_header_first:
  "length (filter is_message_start (processStream parse mid chunks)) \<le> 1
   \<and> (\<forall>i < length (processStream parse mid chunks).
         is_content_block_delta (processStream parse mid chunks ! i) \<longrightarrow>
         (\<exists>j < i. is_message_start (processStream parse mid chunks ! j)))"
proof (cases "List.map_filter (record_of parse) (stream_lines chunks) = []")
  case True
  then show ?thesis by (simp add: processStream_events)
next
  case False
  then have evs: "processStream parse mid chunks
                    = message_start mid # lines_events parse (stream_lines chunks)"
    by (simp add: processStream_events)
  have none: "filter is_message_start (lines_events parse (stream_lines chunks)) = []"
    by (simp add: filter_empty_conv lines_events_no_start)
  have once: "length (filter is_message_start (processStream parse mid chunks)) \<le> 1"
    unfolding evs by (simp add: none is_message_start_def)
  have before: "\<exists>j < i. is_message_start (processStream parse mid chunks ! j)"
    if "is_content_block_delta (processStream parse mid chunks ! i)" for i
  proof -
    have "i \<noteq> 0"
    proof
      assume "i = 0"
      with that show False unfolding evs by (simp add: is_content_block_delta_def)
    qed
    moreover have "is_message_start (processStream parse mid chunks ! 0)"
      unfolding evs by (simp add: is_message_start_def)
    ultimately show ?thesis by blast
  qed
  show ?thesis using once before by blast
qed

text \<open>C3 at \<open>cafe_chunks\<close>, whose second event is a \<^verbatim>\<open>content_block_delta\<close>.\<close>

theorem C3_header_first_witness:
  "length (filter is_message_start (processStream JSON_parse (js ''msg_1'') cafe_chunks)) \<le> 1
   \<and> 1 < length (processStream JSON_parse (js ''msg_1'') cafe_chunks)
   \<and> is_content_block_delta (processStream JSON_parse (js ''msg_1'') cafe_chunks ! 1)
   \<and> (\<exists>j < 1. is_message_start (processStream JSON_parse (js ''msg_1'') cafe_chunks ! j))"
proof -
  have h1: "1 < length (processStream JSON_parse (js ''msg_1'') cafe_chunks)"
    by code_simp
  have h2: "is_content_block_delta (processStream JSON_parse (js ''msg_1'') cafe_chunks ! 1)"
    by code_simp
  show ?thesis
    using h1 h2 C3_header_first [of JSON_parse "js ''msg_1''" cafe_chunks] by blast
qed

text \<open>
  C4 as stated fails: the header is written for the first record that the \<^verbatim>\<open>try\<close> block
  handles, whatever the record carries. The record of \<open>role_line\<close> has neither delta text
  nor a finish reason, no event is written for either, and \<^verbatim>\<open>message_start\<close> is written.
\<close>

theorem C4_header_without_delta:
  "stream_lines role_chunks = [role_line, []]
   \<and> record_of JSON_parse role_line = Some (JStr [], JUndefined)
   \<and> delta_events (JStr []) = []
   \<and> finish_events JUndefined = []
   \<and> processStream JSON_parse (js ''msg_1'') role_chunks = [message_start (js ''msg_1'')]"
  by code_simp

text \<open>
  C4, amended. A stream none of whose lines has a record writes nothing. Otherwise
  \<^verbatim>\<open>message_start\<close> is written at the first line that has a record, before the events of
  that record and whether or not it has delta text or a finish reason; the lines before it
  write nothing, and the events of the later lines follow.
\<close>

theorem C4_header_at_first_record:
  "(List.map_filter (record_of parse) (stream_lines chunks) = []
      \<longrightarrow> processStream parse mid chunks = [])
   \<and> (stream_lines chunks = pre @ line # post
        \<and> List.map_filter (record_of parse) pre = []
        \<and> record_of parse line = Some r
      \<longrightarrow> processStream parse mid chunks
            = message_start mid # record_events r @ lines_events parse post)"
  by (simp add: processStream_events map_filter_append map_filter_Cons lines_events_append
        lines_events_Cons lines_events_none)

text \<open>C4, amended, at \<open>done_chunks\<close>, which has no record, and at \<open>role_chunks\<close>.\<close>

theorem C4_header_at_first_record_witness:
  "List.map_filter (record_of JSON_parse) (stream_lines done_chunks) = []
   \<and> processStream JSON_parse (js ''msg_1'') done_chunks = []
   \<and> stream_lines role_chunks = [] @ role_line # [[]]
   \<and> List.map_filter (record_of JSON_parse) [] = []
   \<and> record_of JSON_parse role_line = Some (JStr [], JUndefined)
   \<and> processStream JSON_parse (js ''msg_1'') role_chunks
        = message_start (js ''msg_1'') # record_events (JStr [], JUndefined)
          @ lines_events JSON_parse [[]]"
proof -
  have h0: "List.map_filter (record_of JSON_parse) (stream_lines done_chunks) = []"
    by code_simp
  have h1: "stream_lines role_chunks = [] @ role_line # [[]]"
    by code_simp
  have h2: "List.map_filter (record_of JSON_parse) [] = []"
    by code_simp
  have h3: "record_of JSON_parse role_line = Some (JStr [], JUndefined)"
    by code_simp
  have a: "processStream JSON_parse (js ''msg_1'') done_chunks = []"
    using h0 C4_header_at_first_record [of JSON_parse done_chunks "js ''msg_1''"] by blast
  have b: "processStream JSON_parse (js ''msg_1'') role_chunks
        = message_start (js ''msg_1'') # record_events (JStr [], JUndefined)
          @ lines_events JSON_parse [[]]"
    using h1 h2 h3
      C4_header_at_first_record [of JSON_parse role_chunks "js ''msg_1''" "[]" role_line "[[]]"
        "(JStr [], JUndefined)"]
    by blast
  show ?thesis using h0 h1 h2 h3 a b by blast
qed

text \<open>
  C5. A data line whose payload does not parse is passed over and the lines after it are
  handled: a stream with such a line among its lines writes the same events as a stream
  with the same lines without it.
\<close>

theorem C5_malformed_skipped:
  assumes "stream_lines chunks = pre @ bad # post"
    and "stream_lines chunks' = pre @ post"
    and "startsWith bad (js ''data:'')"
    and "parse (trim (drop 5 bad)) = None"
  shows "processStream parse mid chunks = processStream parse mid chunks'"
proof -
  have "record_of parse bad = None"
    using assms(3,4) by (simp add: record_of_def)
  then show ?thesis
    using assms(1,2) by (simp add: processStream_events lines_events_skip map_filter_skip)
qed

text \<open>C5 at \<open>skipped_chunks\<close> and \<open>clean_chunks\<close>: both deltas, each once.\<close>

theorem C5_malformed_skipped_witness:
  "stream_lines skipped_chunks = [a_line] @ cut_line # [b_line]
   \<and> stream_lines clean_chunks = [a_line] @ [b_line]
   \<and> startsWith cut_line (js ''data:'')
   \<and> JSON_parse (trim (drop 5 cut_line)) = None
   \<and> processStream JSON_parse (js ''msg_1'') skipped_chunks
        = processStream JSON_parse (js ''msg_1'') clean_chunks
   \<and> processStream JSON_parse (js ''msg_1'') clean_chunks
        = [message_start (js ''msg_1''), content_block_delta (JStr (js ''a'')),
           content_block_delta (JStr (js ''b''))]"
proof -
  have h1: "stream_lines skipped_chunks = [a_line] @ cut_line # [b_line]"
    by code_simp
  have h2: "stream_lines clean_chunks = [a_line] @ [b_line]"
    by code_simp
  have h3: "startsWith cut_line (js ''data:'')"
    by code_simp
  have h4: "JSON_parse (trim (drop 5 cut_line)) = None"
    by code_simp
  have h5: "processStream JSON_parse (js ''msg_1'') clean_chunks
        = [message_start (js ''msg_1''), content_block_delta (JStr (js ''a'')),
           content_block_delta (JStr (js ''b''))]"
    by code_simp
  show ?thesis
    using h1 h2 h3 h4 h5
      C5_malformed_skipped [where pre = "[a_line]" and bad = cut_line and post = "[b_line]"
        and parse = JSON_parse,
        OF h1 h2 h3 h4, of "js ''msg_1''"]
    by blast
qed

section \<open>Claims about request translation\<close>






text \<open>
  C8 as stated fails: \<^verbatim>\<open>system\<close> is read only in the branch of the messages form. For
  \<open>system_prompt_request\<close>, a prompt with a system field, the request has the two messages
  of the prompt and no system message.
\<close>

theorem C8_system_in_prompt_form:
  "convertAnthropicToOpenAI system_prompt_request example_env
     = Inr \<lparr>model = JStr (js ''gpt-4o''),
            messages = [\<lparr>role = JStr (js ''user''), content = JStr (js ''Hi'')\<rparr>,
                        \<lparr>role = JStr (js ''assistant''), content = JStr (js ''Hello'')\<rparr>],
            stream = False, temperature = None, max_tokens = None, top_p = None\<rparr>"
  by code_simp

text \<open>
  C8, amended. In the messages form, when \<^verbatim>\<open>system\<close> passes \<^verbatim>\<open>if\<close> (it is there and is not
  empty) and the translation returns, the first message of the request has role \<^verbatim>\<open>system\<close>
  and the system value as content, and the translated messages follow it.
\<close>

theorem C8_system_first:
  assumes "Get req (js ''messages'') = Inr ms" and "ToBoolean ms"
    and "Get req (js ''system'') = Inr s" and "ToBoolean s"
    and "convertAnthropicToOpenAI req e = Inr r"
  shows "\<exists>elems rest. iterate ms = Inr elems \<and> convert_messages elems = Inr rest
           \<and> messages r = \<lparr>role = JStr (js ''system''), content = s\<rparr> # rest"
proof -
  have s: "OptGet req (js ''system'') = s"
    using assms(3) by (rule Get_OptGet)
  show ?thesis
    using assms(1,2,4,5) s
    by (auto simp: convertAnthropicToOpenAI_def build_messages_def split: sum.splits)
qed

text \<open>C8, amended, at \<open>system_messages_request\<close>.\<close>

theorem C8_system_first_witness:
  "Get system_messages_request (js ''messages'')
     = Inr (JArr [message_of ''user'' (JStr (js ''Hi''))])
   \<and> ToBoolean (JArr [message_of ''user'' (JStr (js ''Hi''))])
   \<and> Get system_messages_request (js ''system'') = Inr (JStr (js ''Be brief''))
   \<and> ToBoolean (JStr (js ''Be brief''))
   \<and> convertAnthropicToOpenAI system_messages_request example_env
       = Inr \<lparr>model = JStr (js ''gpt-4o''),
              messages = [\<lparr>role = JStr (js ''system''), content = JStr (js ''Be brief'')\<rparr>,
                          \<lparr>role = JStr (js ''user''), content = JStr (js ''Hi'')\<rparr>],
              stream = False, temperature = None, max_tokens = None, top_p = None\<rparr>
   \<and> (\<exists>elems rest.
          iterate (JArr [message_of ''user'' (JStr (js ''Hi''))]) = Inr elems
          \<and> convert_messages elems = Inr rest
          \<and> messages \<lparr>model = JStr (js ''gpt-4o''),
                messages = [\<lparr>role = JStr (js ''system''), content = JStr (js ''Be brief'')\<rparr>,
                            \<lparr>role = JStr (js ''user''), content = JStr (js ''Hi'')\<rparr>],
                stream = False, temperature = None, max_tokens = None, top_p = None\<rparr>
              = \<lparr>role = JStr (js ''system''), content = JStr (js ''Be brief'')\<rparr> # rest)"
proof -
  have h1: "Get system_messages_request (js ''messages'')
     = Inr (JArr [message_of ''user'' (JStr (js ''Hi''))])"
    by code_simp
  have h2: "ToBoolean (JArr [message_of ''user'' (JStr (js ''Hi''))])"
    by simp
  have h3: "Get system_messages_request (js ''system'') = Inr (JStr (js ''Be brief''))"
    by code_simp
  have h4: "ToBoolean (JStr (js ''Be brief''))"
    by code_simp
  have h5: "convertAnthropicToOpenAI system_messages_request example_env
       = Inr \<lparr>model = JStr (js ''gpt-4o''),
              messages = [\<lparr>role = JStr (js ''system''), content = JStr (js ''Be brief'')\<rparr>,
                          \<lparr>role = JStr (js ''user''), content = JStr (js ''Hi'')\<rparr>],
              stream = False, temperature = None, max_tokens = None, top_p = None\<rparr>"
    by code_simp
  show ?thesis
    using h1 h2 h3 h4 h5 C8_system_first [OF h1 h2 h3 h4 h5] by blast
qed




text \<open>
  C10. When the messages of a request are an array with an assistant message whose content is
  \<^verbatim>\<open>null\<close> or not there, convertAnthropicToOpenAI throws a TypeError, and the handler, for
  an authorized request with that body, answers 500 with an error of type \<^verbatim>\<open>proxy_error\<close>.
  A message with another role and such a content does not throw: it is pushed with its content
  \<^verbatim>\<open>undefined\<close>.
\<close>

theorem C10_null_content:
  "(Get req (js ''messages'') = Inr (JArr ms) \<and> m \<in> set ms
      \<and> Get m (js ''role'') = Inr (JStr (js ''assistant''))
      \<and> (Get m (js ''content'') = Inr JNull \<or> Get m (js ''content'') = Inr JUndefined)
    \<longrightarrow> convertAnthropicToOpenAI req e = Inl TypeError
        \<and> (authorized q e \<and> request_json q = Some req
             \<longrightarrow> fetch parse backend mid q e
                   = ErrorJson 500 (js ''proxy_error'') (Thrown TypeError)))
   \<and> (Get m' (js ''role'') = Inr r \<and> r \<noteq> JStr (js ''assistant'')
        \<and> (Get m' (js ''content'') = Inr JNull \<or> Get m' (js ''content'') = Inr JUndefined)
      \<longrightarrow> convert_message m' = Inr (Some \<lparr>role = r, content = JUndefined\<rparr>))"
proof -
  have throws: "convertAnthropicToOpenAI req e = Inl TypeError"
    if a: "Get req (js ''messages'') = Inr (JArr ms)" "m \<in> set ms"
      "Get m (js ''role'') = Inr (JStr (js ''assistant''))"
      "Get m (js ''content'') = Inr JNull \<or> Get m (js ''content'') = Inr JUndefined"
  proof -
    have "convert_messages ms = Inl TypeError"
      using a(2) null_content_throws [OF a(3,4)] by (rule convert_messages_throw)
    then have "build_messages req = Inl TypeError"
      using a(1) by (simp add: build_messages_def iterate_def)
    then show ?thesis by (simp add: convertAnthropicToOpenAI_def)
  qed
  have handler: "fetch parse backend mid q e
                   = ErrorJson 500 (js ''proxy_error'') (Thrown TypeError)"
    if t: "convertAnthropicToOpenAI req e = Inl TypeError"
      and g: "Get req (js ''messages'') = Inr (JArr ms)"
      and q: "authorized q e" "request_json q = Some req"
  proof -
    have "Get req (js ''stream'') = Inr (OptGet req (js ''stream''))"
      using Get_defined [OF g] by (simp add: Get_total)
    then have "try_fetch parse backend mid q e = Inl TypeError"
      using t q(2) by (simp add: try_fetch_def)
    then show ?thesis using fetch_authorized [OF q(1)] by simp
  qed
  show ?thesis using throws handler null_content_kept by blast
qed

text \<open>
  C10 at \<open>null_http_request\<close>, and at a user message without content.
\<close>

theorem C10_null_content_witness:
  "Get null_request (js ''messages'')
     = Inr (JArr [message_of ''user'' (JStr (js ''Hi'')), message_of ''assistant'' JNull])
   \<and> message_of ''assistant'' JNull
       \<in> set [message_of ''user'' (JStr (js ''Hi'')), message_of ''assistant'' JNull]
   \<and> Get (message_of ''assistant'' JNull) (js ''role'') = Inr (JStr (js ''assistant''))
   \<and> Get (message_of ''assistant'' JNull) (js ''content'') = Inr JNull
   \<and> convertAnthropicToOpenAI null_request example_env = Inl TypeError
   \<and> authorized null_http_request example_env
   \<and> request_json null_http_request = Some null_request
   \<and> fetch JSON_parse (\<lambda>r. None) (js ''msg_1'') null_http_request example_env
       = ErrorJson 500 (js ''proxy_error'') (Thrown TypeError)
   \<and> Get (JObj [(js ''role'', JStr (js ''user''))]) (js ''role'') = Inr (JStr (js ''user''))
   \<and> JStr (js ''user'') \<noteq> JStr (js ''assistant'')
   \<and> Get (JObj [(js ''role'', JStr (js ''user''))]) (js ''content'') = Inr JUndefined
   \<and> convert_message (JObj [(js ''role'', JStr (js ''user''))])
       = Inr (Some \<lparr>role = JStr (js ''user''), content = JUndefined\<rparr>)"
proof -
  have h1: "Get null_request (js ''messages'')
     = Inr (JArr [message_of ''user'' (JStr (js ''Hi'')), message_of ''assistant'' JNull])"
    by code_simp
  have h2: "message_of ''assistant'' JNull
       \<in> set [message_of ''user'' (JStr (js ''Hi'')), message_of ''assistant'' JNull]"
    by simp
  have h3: "Get (message_of ''assistant'' JNull) (js ''role'') = Inr (JStr (js ''assistant''))"
    by code_simp
  have h4: "Get (message_of ''assistant'' JNull) (js ''content'') = Inr JNull"
    by code_simp
  have h5: "authorized null_http_request example_env"
    by code_simp
  have h6: "request_json null_http_request = Some null_request"
    by (simp add: null_http_request_def)
  have h7: "Get (JObj [(js ''role'', JStr (js ''user''))]) (js ''role'') = Inr (JStr (js ''user''))"
    by code_simp
  have h8: "JStr (js ''user'') \<noteq> JStr (js ''assistant'')"
    by code_simp
  have h9: "Get (JObj [(js ''role'', JStr (js ''user''))]) (js ''content'') = Inr JUndefined"
    by code_simp
  note inst = C10_null_content [of null_request
      "[message_of ''user'' (JStr (js ''Hi'')), message_of ''assistant'' JNull]"
      "message_of ''assistant'' JNull" example_env null_http_request JSON_parse "\<lambda>r. None"
      "js ''msg_1''" "JObj [(js ''role'', JStr (js ''user''))]" "JStr (js ''user'')"]
  show ?thesis using h1 h2 h3 h4 h5 h6 h7 h8 h9 inst by blast
qed

end
